theory Spec2Isabelle
  imports Complex_Main "HOL-Library.AList"
begin

section \<open>Python values\<close>

text \<open>
  A Python \<open>str\<close> is a sequence of Unicode code points, so it is modelled as a list of
  natural numbers (the service's own messages contain code points above 255).
  \<open>ustr\<close> turns an ASCII literal into such a list.
\<close>

type_synonym pystr = "nat list"

definition ustr :: "string \<Rightarrow> pystr" where
  "ustr s = map of_char s"

text \<open>
  Floats are the reals they denote, with the three special values that the JSON decoder
  also accepts. Only zero is falsy.
\<close>

datatype pyfloat = Finite real | PosInf | NegInf | NaN

text \<open>
  The values a JSON decoder produces. A \<open>dict\<close> keeps insertion order, so an object is
  an association list: \<open>map_of\<close> is \<open>dict.get\<close>, and \<open>AList.update\<close> is item assignment
  (an existing key keeps its place, a new key goes to the end).
\<close>

datatype json =
    JNull
  | JBool bool
  | JInt int
  | JFloat pyfloat
  | JStr pystr
  | JArr "json list"
  | JObj "(pystr \<times> json) list"

fun truthy :: "json \<Rightarrow> bool" where
  "truthy JNull = False"
| "truthy (JBool b) = b"
| "truthy (JInt n) = (n \<noteq> 0)"
| "truthy (JFloat f) = (f \<noteq> Finite 0)"
| "truthy (JStr s) = (s \<noteq> [])"
| "truthy (JArr xs) = (xs \<noteq> [])"
| "truthy (JObj kvs) = (kvs \<noteq> [])"

definition py_or :: "json \<Rightarrow> json \<Rightarrow> json" where
  "py_or a b = (if truthy a then a else b)"

definition dict_get :: "(pystr \<times> json) list \<Rightarrow> pystr \<Rightarrow> json \<Rightarrow> json" where
  "dict_get d k dflt = (case map_of d k of None \<Rightarrow> dflt | Some v \<Rightarrow> v)"

definition setdefault :: "(pystr \<times> json) list \<Rightarrow> pystr \<Rightarrow> json \<Rightarrow> (pystr \<times> json) list" where
  "setdefault d k v = (case map_of d k of None \<Rightarrow> AList.update k v d | Some _ \<Rightarrow> d)"

fun type_name :: "json \<Rightarrow> pystr" where
  "type_name JNull = ustr ''NoneType''"
| "type_name (JBool _) = ustr ''bool''"
| "type_name (JInt _) = ustr ''int''"
| "type_name (JFloat _) = ustr ''float''"
| "type_name (JStr _) = ustr ''str''"
| "type_name (JArr _) = ustr ''list''"
| "type_name (JObj _) = ustr ''dict''"

subsection \<open>Exceptions\<close>

text \<open>An exception is the pair the handler reads: \<open>type(e).__name__\<close> and \<open>str(e)\<close>.\<close>

record exn =
  ename :: pystr
  emsg :: pystr

definition attribute_error :: "json \<Rightarrow> pystr \<Rightarrow> exn" where
  "attribute_error v attr =
     \<lparr>ename = ustr ''AttributeError'',
      emsg = [39] @ type_name v @ [39] @ ustr '' object has no attribute '' @ [39] @ attr @ [39]\<rparr>"

definition value_error :: "pystr \<Rightarrow> exn" where
  "value_error msg = \<lparr>ename = ustr ''ValueError'', emsg = msg\<rparr>"

definition type_error :: "pystr \<Rightarrow> exn" where
  "type_error msg = \<lparr>ename = ustr ''TypeError'', emsg = msg\<rparr>"

section \<open>String methods\<close>

text \<open>\<open>str.isspace\<close> on one code point (the whitespace set of the Unicode database).\<close>

definition isspace :: "nat \<Rightarrow> bool" where
  "isspace c \<longleftrightarrow>
     (9 \<le> c \<and> c \<le> 13) \<or> (28 \<le> c \<and> c \<le> 32) \<or> c = 0x85 \<or> c = 0xA0 \<or> c = 0x1680
     \<or> (0x2000 \<le> c \<and> c \<le> 0x200A) \<or> c = 0x2028 \<or> c = 0x2029 \<or> c = 0x202F
     \<or> c = 0x205F \<or> c = 0x3000"

text \<open>The line boundaries of \<open>str.splitlines\<close>.\<close>

definition is_linebreak :: "nat \<Rightarrow> bool" where
  "is_linebreak c \<longleftrightarrow>
     (10 \<le> c \<and> c \<le> 13) \<or> (28 \<le> c \<and> c \<le> 30) \<or> c = 0x85 \<or> c = 0x2028 \<or> c = 0x2029"

definition strip :: "pystr \<Rightarrow> pystr" where
  "strip s = rev (dropWhile isspace (rev (dropWhile isspace s)))"

text \<open>
  \<open>str.splitlines()\<close>: the text is cut at every line boundary, \<open>\r\n\<close> counting as one;
  the boundaries are not kept and a final boundary opens no empty last line.
  The first argument is the line collected so far.
\<close>

fun splitlines_from :: "pystr \<Rightarrow> pystr \<Rightarrow> pystr list" where
  "splitlines_from cur [] = (if cur = [] then [] else [cur])"
| "splitlines_from cur [c] = (if is_linebreak c then [cur] else [cur @ [c]])"
| "splitlines_from cur (c # d # cs) =
     (if c = 13 \<and> d = 10 then cur # splitlines_from [] cs
      else if is_linebreak c then cur # splitlines_from [] (d # cs)
      else splitlines_from (cur @ [c]) (d # cs))"

definition splitlines :: "pystr \<Rightarrow> pystr list" where
  "splitlines s = splitlines_from [] s"

text \<open>\<open>str.split(sep)\<close> for a one-character separator; the result is never empty.\<close>

fun split_from :: "nat \<Rightarrow> pystr \<Rightarrow> pystr \<Rightarrow> pystr list" where
  "split_from sep cur [] = [cur]"
| "split_from sep cur (c # cs) =
     (if c = sep then cur # split_from sep [] cs else split_from sep (cur @ [c]) cs)"

definition split_str :: "pystr \<Rightarrow> nat \<Rightarrow> pystr list" where
  "split_str s sep = split_from sep [] s"

text \<open>\<open>str.find\<close> and \<open>str.rfind\<close> of one character; \<open>None\<close> stands for \<open>-1\<close>.\<close>

fun find_str :: "pystr \<Rightarrow> nat \<Rightarrow> nat option" where
  "find_str [] ch = None"
| "find_str (c # cs) ch = (if c = ch then Some 0 else map_option Suc (find_str cs ch))"

definition rfind_str :: "pystr \<Rightarrow> nat \<Rightarrow> nat option" where
  "rfind_str s ch = map_option (\<lambda>i. length s - 1 - i) (find_str (rev s) ch)"

text \<open>The slice \<open>s[i:j]\<close> for non-negative bounds; it is empty when \<open>j \<le> i\<close>.\<close>

definition slice :: "pystr \<Rightarrow> nat \<Rightarrow> nat \<Rightarrow> pystr" where
  "slice s i j = take (j - i) (drop i s)"

fun join_str :: "pystr \<Rightarrow> pystr list \<Rightarrow> pystr" where
  "join_str sep [] = []"
| "join_str sep [x] = x"
| "join_str sep (x # y # ys) = x @ sep @ join_str sep (y # ys)"

text \<open>Decimal digits of a natural number, as \<open>str(n)\<close> prints them.\<close>

function decimal :: "nat \<Rightarrow> pystr" where
  "decimal n = (if n < 10 then [48 + n] else decimal (n div 10) @ [48 + n mod 10])"
  by pat_completeness auto
termination
  by (relation "measure id") auto

declare decimal.simps [simp del]


section \<open>The built-in \<open>int\<close> on a string\<close>

text \<open>
  \<open>int(s)\<close> in base 10, as the interpreter computes it. A string with a non-ASCII code
  point is first rewritten: code points below 127 stay, Unicode whitespace becomes a
  blank, a Unicode decimal digit becomes its ASCII digit, and anything else becomes
  \<open>?\<close>, where the rewriting stops. The table of decimal digits \<open>td\<close> belongs to the
  interpreter's Unicode database. The parser then accepts
  blanks, an optional sign, digits with single underscores between them, blanks.
  \<open>maxd\<close> is the interpreter's limit on the number of digits (0 for none).
\<close>

definition c_isspace :: "nat \<Rightarrow> bool" where
  "c_isspace c \<longleftrightarrow> c = 32 \<or> (9 \<le> c \<and> c \<le> 13)"

definition is_digit :: "nat \<Rightarrow> bool" where
  "is_digit c \<longleftrightarrow> 48 \<le> c \<and> c \<le> 57"

fun transform_decimal_and_space :: "(nat \<Rightarrow> nat option) \<Rightarrow> pystr \<Rightarrow> pystr" where
  "transform_decimal_and_space td [] = []"
| "transform_decimal_and_space td (c # cs) =
     (if c < 127 then c # transform_decimal_and_space td cs
      else if isspace c then 32 # transform_decimal_and_space td cs
      else case td c of
             Some d \<Rightarrow> (48 + d) # transform_decimal_and_space td cs
           | None \<Rightarrow> [63])"

fun no_double_underscore :: "pystr \<Rightarrow> bool" where
  "no_double_underscore [] = True"
| "no_double_underscore [c] = True"
| "no_double_underscore (c # d # cs) =
     (\<not> (c = 95 \<and> d = 95) \<and> no_double_underscore (d # cs))"

datatype int_error = InvalidLiteral | ExceedsLimit nat

definition py_int :: "(nat \<Rightarrow> nat option) \<Rightarrow> nat \<Rightarrow> pystr \<Rightarrow> int_error + int" where
  "py_int td maxd s =
     (let buf = (if list_all (\<lambda>c. c < 128) s then s else transform_decimal_and_space td s);
          s1 = dropWhile c_isspace buf;
          neg = (case s1 of [] \<Rightarrow> False | c # _ \<Rightarrow> c = 45);
          s2 = (case s1 of [] \<Rightarrow> [] | c # r \<Rightarrow> if c = 43 \<or> c = 45 then r else s1);
          body = takeWhile (\<lambda>c. is_digit c \<or> c = 95) s2;
          rest = dropWhile (\<lambda>c. is_digit c \<or> c = 95) s2;
          ds = filter is_digit body
      in if body \<noteq> [] \<and> (hd body = 95 \<or> last body = 95 \<or> \<not> no_double_underscore body)
         then Inl InvalidLiteral
         else if 640 < length ds \<and> 0 < maxd \<and> maxd < length ds
         then Inl (ExceedsLimit (length ds))
         else if body = [] \<or> dropWhile c_isspace rest \<noteq> []
         then Inl InvalidLiteral
         else Inr ((if neg then - 1 else 1) * int (foldl (\<lambda>a c. 10 * a + (c - 48)) 0 ds)))"

text \<open>
  The decimal digits of Unicode 14.0 (the database of CPython 3.11): each listed code
  point is a digit zero and starts a run of the ten digits.
\<close>

definition decimal_zeros :: "nat list" where
  "decimal_zeros =
     [0x30, 0x660, 0x6F0, 0x7C0, 0x966, 0x9E6, 0xA66, 0xAE6, 0xB66, 0xBE6, 0xC66, 0xCE6,
      0xD66, 0xDE6, 0xE50, 0xED0, 0xF20, 0x1040, 0x1090, 0x17E0, 0x1810, 0x1946, 0x19D0,
      0x1A80, 0x1A90, 0x1B50, 0x1BB0, 0x1C40, 0x1C50, 0xA620, 0xA8D0, 0xA900, 0xA9D0,
      0xA9F0, 0xAA50, 0xABF0, 0xFF10, 0x104A0, 0x10D30, 0x11066, 0x110F0, 0x11136,
      0x111D0, 0x112F0, 0x11450, 0x114D0, 0x11650, 0x116C0, 0x11730, 0x118E0, 0x11950,
      0x11C50, 0x11D50, 0x11DA0, 0x16A60, 0x16AC0, 0x16B50, 0x1D7CE, 0x1D7D8, 0x1D7E2,
      0x1D7EC, 0x1D7F6, 0x1E140, 0x1E2F0, 0x1E950, 0x1FBF0]"

definition unicode_decimal :: "nat \<Rightarrow> nat option" where
  "unicode_decimal c =
     map_option (\<lambda>z. c - z) (List.find (\<lambda>z. z \<le> c \<and> c < z + 10) decimal_zeros)"

section \<open>Configuration, clock and collaborators\<close>

record date =
  year :: nat
  month :: nat
  day :: nat

definition zero_pad :: "nat \<Rightarrow> pystr \<Rightarrow> pystr" where
  "zero_pad w s = replicate (w - length s) 48 @ s"

text \<open>\<open>time.strftime('%Y-%m-%d')\<close> at the given local date.\<close>

definition strftime_ymd :: "date \<Rightarrow> pystr" where
  "strftime_ymd t =
     decimal (year t) @ [45] @ zero_pad 2 (decimal (month t)) @ [45] @ zero_pad 2 (decimal (day t))"

text \<open>
  The request sent to the text-generation provider, and the two shapes of its answer
  that the handler reads: the text of the first content item of the first output, or
  the flat \<open>output_text\<close> attribute, or neither.
\<close>

record call =
  c_model :: pystr
  c_input :: "(pystr \<times> pystr) list"
  c_response_format :: pystr

datatype provider_response = Structured pystr | FlatText pystr | NoText

text \<open>
  Everything the handler reads from outside the request: the three settings taken from
  the environment at start-up, the clock, the provider, and the library functions whose
  result is only passed on (\<open>json.loads\<close>, \<open>traceback.format_exc\<close>, \<open>repr\<close> of a
  string, \<open>str\<close> of a value that is not a string) or that depend on the interpreter
  (the table of decimal digits and the digit limit of \<open>int\<close>).
\<close>

record env =
  OPENAI_API_KEY :: pystr
  MODEL :: pystr
  DEBUG_ERRORS :: bool
  today :: date
  generate :: "call \<Rightarrow> exn + provider_response"
  loads :: "pystr \<Rightarrow> exn + json"
  format_exc :: "exn \<Rightarrow> pystr"
  py_repr :: "pystr \<Rightarrow> pystr"
  py_str :: "json \<Rightarrow> pystr"
  todecimal :: "nat \<Rightarrow> nat option"
  int_max_str_digits :: nat

record response =
  status :: nat
  body :: json


section \<open>The handlers\<close>

subsection \<open>\<open>GET /ping\<close>\<close>

definition ping :: "env \<Rightarrow> response" where
  "ping env =
     \<lparr>status = 200,
      body = JObj [(ustr ''status'', JStr (ustr ''ok'')), (ustr ''model'', JStr (MODEL env))]\<rparr>"

subsection \<open>\<open>POST /analyze\<close>: the responses that are not results\<close>

definition missing_csv :: response where
  "missing_csv = \<lparr>status = 400, body = JObj [(ustr ''error'', JStr (ustr ''Missing CSV data''))]\<rparr>"

text \<open>The error envelope, with the trace when enabled.\<close>

definition error_response :: "env \<Rightarrow> exn \<Rightarrow> response" where
  "error_response env e =
     \<lparr>status = 500,
      body = JObj ((ustr ''error'', JStr (ename e @ ustr '': '' @ emsg e))
                   # (if DEBUG_ERRORS env then [(ustr ''trace'', JStr (format_exc env e))] else []))\<rparr>"

definition default_schema :: json where
  "default_schema =
     JArr (map (\<lambda>s. JStr (ustr s))
       [''userid'', ''username'', ''quizname'', ''difficultysum'', ''standarderror'',
        ''measure'', ''timetaken''])"

text \<open>\<open>v.strip()\<close> on a decoded value: only a string has the method.\<close>

definition strip_value :: "json \<Rightarrow> exn + pystr" where
  "strip_value v = (case v of JStr s \<Rightarrow> Inr (strip s) | _ \<Rightarrow> Inl (attribute_error v (ustr ''strip'')))"

subsection \<open>Dry-run mode\<close>

text \<open>\<open>dict(zip(hdr, cols))\<close>: pairs up to the shorter list, a repeated name keeps its
  first place and its last value.\<close>

definition dict_zip :: "pystr list \<Rightarrow> pystr list \<Rightarrow> (pystr \<times> pystr) list" where
  "dict_zip hdr cols = fold (\<lambda>(k, v). AList.update k v) (zip hdr cols) []"

text \<open>
  \<open>int(s)\<close> with its two messages; the first shows at most 200 characters of the
  \<open>repr\<close> of the string.
\<close>

definition int_of_str :: "env \<Rightarrow> pystr \<Rightarrow> exn + int" where
  "int_of_str env s =
     (case py_int (todecimal env) (int_max_str_digits env) s of
        Inr n \<Rightarrow> Inr n
      | Inl InvalidLiteral \<Rightarrow>
          Inl (value_error
            (ustr ''invalid literal for int() with base 10: '' @ take 200 (py_repr env s)))
      | Inl (ExceedsLimit n) \<Rightarrow>
          Inl (value_error
            (ustr ''Exceeds the limit ('' @ decimal (int_max_str_digits env)
             @ ustr '' digits) for integer string conversion: value has '' @ decimal n
             @ ustr '' digits; use sys.set_int_max_str_digits() to increase the limit'')))"

text \<open>\<open>int(rec.get("userid", "0") or 0)\<close>\<close>

definition userid_of :: "env \<Rightarrow> (pystr \<times> pystr) list \<Rightarrow> exn + int" where
  "userid_of env rec =
     (let v = (case map_of rec (ustr ''userid'') of None \<Rightarrow> ustr ''0'' | Some s \<Rightarrow> s)
      in if v = [] then Inr 0 else int_of_str env v)"

text \<open>\<open>rec.get("userid")\<close> for the record of one row.\<close>

definition userid_field :: "pystr list \<Rightarrow> pystr \<Rightarrow> pystr option" where
  "userid_field hdr row = map_of (dict_zip hdr (split_str row 44)) (ustr ''userid'')"

definition features_of :: "(pystr \<times> pystr) list \<Rightarrow> json" where
  "features_of rec = JObj (map (\<lambda>(k, v). (k, JStr v)) rec)"

definition placeholder_item :: "int \<Rightarrow> (pystr \<times> pystr) list \<Rightarrow> json" where
  "placeholder_item uid rec =
     JObj [(ustr ''userid'', JInt uid),
           (ustr ''risk_score'', JFloat (Finite 50)),
           (ustr ''confidence'', JFloat (Finite (4 / 10))),
           (ustr ''drivers'', JArr [JStr (ustr ''dry-run mode'')]),
           (ustr ''student_msg'', JStr (ustr ''Dry-run preview.'')),
           (ustr ''teacher_msg'',
              JStr (ustr ''Dry-run: Verify Moodle '' @ [0x2194] @ ustr '' Analytics link.'')),
           (ustr ''features'', features_of rec)]"

text \<open>The body of the loop over the data rows.\<close>

definition dry_item :: "env \<Rightarrow> pystr list \<Rightarrow> pystr \<Rightarrow> exn + json" where
  "dry_item env hdr row =
     (let cols = split_str row 44;
          rec = dict_zip hdr cols
      in case userid_of env rec of
           Inl e \<Rightarrow> Inl e
         | Inr uid \<Rightarrow> Inr (placeholder_item uid rec))"

text \<open>The loop: the first row that raises ends it, and no item is returned.\<close>

fun dry_items :: "env \<Rightarrow> pystr list \<Rightarrow> pystr list \<Rightarrow> exn + json list" where
  "dry_items env hdr [] = Inr []"
| "dry_items env hdr (row # rows) =
     (case dry_item env hdr row of
        Inl e \<Rightarrow> Inl e
      | Inr item \<Rightarrow>
          (case dry_items env hdr rows of
             Inl e \<Rightarrow> Inl e
           | Inr items \<Rightarrow> Inr (item # items)))"

definition nonblank_lines :: "pystr \<Rightarrow> pystr list" where
  "nonblank_lines csv_text = filter (\<lambda>ln. strip ln \<noteq> []) (splitlines csv_text)"

definition dry_run_mode :: "env \<Rightarrow> json \<Rightarrow> pystr \<Rightarrow> exn + response" where
  "dry_run_mode env run_label csv_text =
     (let lines = nonblank_lines csv_text;
          hdr = (case lines of [] \<Rightarrow> [] | l # _ \<Rightarrow> split_str l 44)
      in case dry_items env hdr (drop 1 lines) of
           Inl e \<Rightarrow> Inl e
         | Inr items \<Rightarrow>
             Inr \<lparr>status = 200,
                  body = JObj [(ustr ''run_label'', run_label), (ustr ''items'', JArr items)]\<rparr>)"


subsection \<open>Live mode\<close>

text \<open>
  \<open>", ".join(schema)\<close> on whatever the request carried: a string is joined character
  by character, a dict by its keys, a list must hold strings only.
\<close>

fun join_items :: "nat \<Rightarrow> json list \<Rightarrow> exn + pystr list" where
  "join_items i [] = Inr []"
| "join_items i (x # xs) =
     (case x of
        JStr s \<Rightarrow> (case join_items (Suc i) xs of Inl e \<Rightarrow> Inl e | Inr ss \<Rightarrow> Inr (s # ss))
      | _ \<Rightarrow>
          Inl (type_error (ustr ''sequence item '' @ decimal i @ ustr '': expected str instance, ''
                           @ type_name x @ ustr '' found'')))"

definition join_schema :: "json \<Rightarrow> exn + pystr" where
  "join_schema schema =
     (case schema of
        JStr s \<Rightarrow> Inr (join_str (ustr '', '') (map (\<lambda>c. [c]) s))
      | JArr xs \<Rightarrow>
          (case join_items 0 xs of Inl e \<Rightarrow> Inl e | Inr ss \<Rightarrow> Inr (join_str (ustr '', '') ss))
      | JObj kvs \<Rightarrow> Inr (join_str (ustr '', '') (map fst kvs))
      | _ \<Rightarrow> Inl (type_error (ustr ''can only join an iterable'')))"

text \<open>A value interpolated into the prompt: a string as it is, anything else through \<open>str\<close>.\<close>

definition format_value :: "env \<Rightarrow> json \<Rightarrow> pystr" where
  "format_value env v = (case v of JStr s \<Rightarrow> s | _ \<Rightarrow> py_str env v)"

definition build_prompt :: "env \<Rightarrow> pystr \<Rightarrow> json \<Rightarrow> pystr \<Rightarrow> pystr" where
  "build_prompt env schema_list run_label csv_text =
     strip (join_str [10]
       [[],
        ustr ''You are a learning analytics model. Analyze this CSV and return JSON only.'',
        ustr ''Columns: '' @ schema_list @ ustr ''.'',
        ustr ''Each record = 1 quiz attempt. Aggregate by userid.'',
        [],
        ustr ''Output exactly:'',
        ustr ''{'',
        ustr ''  '' @ [34] @ ustr ''run_label'' @ [34] @ ustr '': '' @ [34]
          @ format_value env run_label @ [34] @ ustr '','',
        ustr ''  '' @ [34] @ ustr ''items'' @ [34] @ ustr '': ['',
        ustr ''    {'',
        ustr ''      '' @ [34] @ ustr ''userid'' @ [34] @ ustr '': int,'',
        ustr ''      '' @ [34] @ ustr ''risk_score'' @ [34] @ ustr '': float,     # 0'' @ [8211]
          @ ustr ''100 (higher = higher risk)'',
        ustr ''      '' @ [34] @ ustr ''confidence'' @ [34] @ ustr '': float,     # 0'' @ [8211]
          @ ustr ''1 (model certainty)'',
        ustr ''      '' @ [34] @ ustr ''drivers'' @ [34] @ ustr '': [string],     # 1'' @ [8211]
          @ ustr ''4 short causes'',
        ustr ''      '' @ [34] @ ustr ''student_msg'' @ [34]
          @ ustr '': string,   # actionable note for student'',
        ustr ''      '' @ [34] @ ustr ''teacher_msg'' @ [34]
          @ ustr '': string    # actionable note for teacher'',
        ustr ''    }'',
        ustr ''  ]'',
        ustr ''}'',
        [],
        ustr ''If data insufficient, set confidence low (~0.3) and neutral risk (~50).'',
        ustr ''Return ONLY valid JSON '' @ [8212] @ ustr '' no markdown, no commentary.'',
        [],
        ustr ''CSV data:'',
        csv_text,
        ustr ''        ''])"

definition provider_call :: "env \<Rightarrow> pystr \<Rightarrow> call" where
  "provider_call env prompt =
     \<lparr>c_model = MODEL env,
      c_input = [(ustr ''system'', ustr ''You are a JSON-only learning analytics engine.''),
                 (ustr ''user'', prompt)],
      c_response_format = ustr ''json_object''\<rparr>"

definition extract_text :: "provider_response \<Rightarrow> pystr" where
  "extract_text resp = (case resp of Structured t \<Rightarrow> t | FlatText t \<Rightarrow> t | NoText \<Rightarrow> [])"

text \<open>
  Parsing the model's text: directly, else the span from the first \<open>{\<close> to the last
  \<open>}\<close>, else \<open>ValueError\<close>. A failure of the second \<open>json.loads\<close> is raised as it is.
\<close>

definition parse_response :: "env \<Rightarrow> pystr \<Rightarrow> exn + json" where
  "parse_response env text =
     (case loads env text of
        Inr parsed \<Rightarrow> Inr parsed
      | Inl _ \<Rightarrow>
          (case (find_str text 123, rfind_str text 125) of
             (Some start, Some end) \<Rightarrow> loads env (slice text start (end + 1))
           | _ \<Rightarrow> Inl (value_error (ustr ''Invalid JSON returned from model''))))"

text \<open>\<open>setdefault\<close>, the coercion of \<open>items\<close>, and the 200 response.\<close>

definition post_process :: "json \<Rightarrow> json \<Rightarrow> exn + response" where
  "post_process run_label parsed =
     (case parsed of
        JObj d \<Rightarrow>
          (let d1 = setdefault d (ustr ''run_label'') run_label;
               d2 = (case dict_get d1 (ustr ''items'') JNull of
                       JArr _ \<Rightarrow> d1
                     | _ \<Rightarrow> AList.update (ustr ''items'') (JArr []) d1)
           in Inr \<lparr>status = 200, body = JObj d2\<rparr>)
      | _ \<Rightarrow> Inl (attribute_error parsed (ustr ''setdefault'')))"

text \<open>
  Building the prompt, calling the provider and reading the text of its answer. The
  second component is the list of calls made to the provider: none when the schema
  cannot be joined, one otherwise.
\<close>

definition call_model :: "env \<Rightarrow> json \<Rightarrow> json \<Rightarrow> pystr \<Rightarrow> (exn + pystr) \<times> call list" where
  "call_model env schema run_label csv_text =
     (case join_schema schema of
        Inl e \<Rightarrow> (Inl e, [])
      | Inr schema_list \<Rightarrow>
          (let c = provider_call env (build_prompt env schema_list run_label csv_text)
           in case generate env c of
                Inl e \<Rightarrow> (Inl e, [c])
              | Inr resp \<Rightarrow> (Inr (extract_text resp), [c])))"

definition live_mode :: "env \<Rightarrow> json \<Rightarrow> json \<Rightarrow> pystr \<Rightarrow> (exn + response) \<times> call list" where
  "live_mode env schema run_label csv_text =
     (case call_model env schema run_label csv_text of
        (Inl e, calls) \<Rightarrow> (Inl e, calls)
      | (Inr text, calls) \<Rightarrow>
          (case parse_response env text of
             Inl e \<Rightarrow> (Inl e, calls)
           | Inr parsed \<Rightarrow> (post_process run_label parsed, calls)))"

subsection \<open>\<open>POST /analyze\<close>\<close>

text \<open>
  The four values read from the decoded body \<open>d\<close>, in the order of the source:
  \<open>(data.get("csv") or "").strip()\<close>, \<open>data.get("schema") or [...]\<close>,
  \<open>bool(data.get("dryrun", False))\<close> and \<open>data.get("run_label") or f"manual_{...}"\<close>.
\<close>

definition req_csv_text :: "(pystr \<times> json) list \<Rightarrow> exn + pystr" where
  "req_csv_text d = strip_value (py_or (dict_get d (ustr ''csv'') JNull) (JStr []))"

definition req_schema :: "(pystr \<times> json) list \<Rightarrow> json" where
  "req_schema d = py_or (dict_get d (ustr ''schema'') JNull) default_schema"

definition req_dryrun :: "(pystr \<times> json) list \<Rightarrow> bool" where
  "req_dryrun d = truthy (dict_get d (ustr ''dryrun'') (JBool False))"

definition req_run_label :: "env \<Rightarrow> (pystr \<times> json) list \<Rightarrow> json" where
  "req_run_label env d =
     py_or (dict_get d (ustr ''run_label'') JNull)
           (JStr (ustr ''manual_'' @ strftime_ymd (today env)))"

text \<open>
  The body of the \<open>try\<close>. The argument is what \<open>get_json(force=True, silent=True)\<close>
  returns: the decoded body, or \<open>None\<close> when there is none or it is not JSON.
  The result is the response or the exception raised, with the calls made to the provider.
\<close>

definition analyze_try :: "env \<Rightarrow> json option \<Rightarrow> (exn + response) \<times> call list" where
  "analyze_try env got =
     (let data = py_or (case got of None \<Rightarrow> JNull | Some j \<Rightarrow> j) (JObj [])
      in case data of
           JObj d \<Rightarrow>
             (case req_csv_text d of
                Inl e \<Rightarrow> (Inl e, [])
              | Inr csv_text \<Rightarrow>
                  (let schema = req_schema d;
                       dryrun = req_dryrun d;
                       run_label = req_run_label env d
                   in if csv_text = [] then (Inr missing_csv, [])
                      else if dryrun \<or> OPENAI_API_KEY env = []
                      then (dry_run_mode env run_label csv_text, [])
                      else live_mode env schema run_label csv_text))
         | _ \<Rightarrow> (Inl (attribute_error data (ustr ''get'')), []))"

text \<open>The \<open>except Exception\<close> clause turns a raised exception into the 500 response.\<close>

definition respond :: "env \<Rightarrow> (exn + response) \<times> call list \<Rightarrow> response \<times> call list" where
  "respond env out =
     (case out of
        (Inr r, calls) \<Rightarrow> (r, calls)
      | (Inl e, calls) \<Rightarrow> (error_response env e, calls))"

definition analyze :: "env \<Rightarrow> json option \<Rightarrow> response \<times> call list" where
  "analyze env got = respond env (analyze_try env got)"

section \<open>Sample environments\<close>

text \<open>
  Concrete surroundings for running the handler: the interpreter of CPython 3.11
  (Unicode 14.0, at most 4300 digits), traces off, a fixed date. \<open>plain_repr\<close> is \<open>repr\<close>
  on strings of printable ASCII without quotes or backslashes; \<open>table_loads\<close> is
  \<open>json.loads\<close> on the texts listed in the table and on texts that do not start a JSON
  value at all; the provider answers every call with \<open>answer\<close>.
\<close>

definition plain_repr :: "pystr \<Rightarrow> pystr" where
  "plain_repr s = [39] @ s @ [39]"

definition table_loads :: "(pystr \<times> json) list \<Rightarrow> pystr \<Rightarrow> exn + json" where
  "table_loads tbl t =
     (case map_of tbl t of
        Some v \<Rightarrow> Inr v
      | None \<Rightarrow>
          Inl \<lparr>ename = ustr ''JSONDecodeError'',
               emsg = ustr ''Expecting value: line 1 column 1 (char 0)''\<rparr>)"

definition sample_env :: "pystr \<Rightarrow> exn + provider_response \<Rightarrow> (pystr \<times> json) list \<Rightarrow> env" where
  "sample_env key answer tbl =
     \<lparr>OPENAI_API_KEY = key,
      MODEL = ustr ''gpt-4o-mini'',
      DEBUG_ERRORS = False,
      today = \<lparr>year = 2025, month = 10, day = 24\<rparr>,
      generate = (\<lambda>_. answer),
      loads = table_loads tbl,
      format_exc = (\<lambda>e. ename e @ ustr '': '' @ emsg e @ [10]),
      py_repr = plain_repr,
      py_str = (\<lambda>_. []),
      todecimal = unicode_decimal,
      int_max_str_digits = 4300\<rparr>"

text \<open>A decoder that raises the listed exceptions on the listed texts and otherwise is \<open>f\<close>.\<close>

definition loads_or :: "(pystr \<times> exn) list \<Rightarrow> (pystr \<Rightarrow> exn + json) \<Rightarrow> pystr \<Rightarrow> exn + json" where
  "loads_or errs f t = (case map_of errs t of Some e \<Rightarrow> Inl e | None \<Rightarrow> f t)"

definition offline_env :: env where
  "offline_env = sample_env [] (Inr NoText) []"

definition live_env :: "pystr \<Rightarrow> (pystr \<times> json) list \<Rightarrow> env" where
  "live_env text tbl = sample_env (ustr ''sk-test'') (Inr (Structured text)) tbl"

text \<open>A request with a header line, one data row and nothing else.\<close>

definition sample_request :: "(pystr \<times> json) list" where
  "sample_request = [(ustr ''csv'', JStr (ustr ''userid'' @ [10] @ ustr ''7''))]"

section \<open>Properties\<close>

subsection \<open>Facts about the string methods\<close>

lemma strip_Nil_iff: "strip s = [] \<longleftrightarrow> (\<forall>c\<in>set s. isspace c)"
proof
  assume a: "strip s = []"
  let ?t = "dropWhile isspace s"
  from a have all: "\<forall>x\<in>set ?t. isspace x" by (simp add: strip_def)
  have "?t = []"
  proof (rule ccontr)
    assume ne: "?t \<noteq> []"
    then have "\<not> isspace (hd ?t)" by (rule hd_dropWhile)
    moreover from ne have "hd ?t \<in> set ?t" by simp
    ultimately show False using all by blast
  qed
  then show "\<forall>c\<in>set s. isspace c" by simp
next
  assume "\<forall>c\<in>set s. isspace c"
  then show "strip s = []" by (auto simp: strip_def dest: set_dropWhileD)
qed

lemma keys_distinct:
  "ustr ''csv'' \<noteq> ustr ''schema''" "ustr ''dryrun'' \<noteq> ustr ''schema''"
  "ustr ''run_label'' \<noteq> ustr ''schema''" "ustr ''items'' \<noteq> ustr ''run_label''"
  by (simp_all add: ustr_def)

subsection \<open>The shape of the handler\<close>

lemma req_csv_text_str:
  assumes "map_of d (ustr ''csv'') = Some (JStr raw)"
  shows "req_csv_text d = Inr (strip raw)"
  using assms
  by (cases "raw = []")
     (simp_all add: req_csv_text_def dict_get_def py_or_def strip_value_def strip_def)

lemma analyze_try_obj:
  "analyze_try env (Some (JObj d)) =
     (case req_csv_text d of
        Inl e \<Rightarrow> (Inl e, [])
      | Inr csv_text \<Rightarrow>
          if csv_text = [] then (Inr missing_csv, [])
          else if req_dryrun d \<or> OPENAI_API_KEY env = []
          then (dry_run_mode env (req_run_label env d) csv_text, [])
          else live_mode env (req_schema d) (req_run_label env d) csv_text)"
  by (cases "d = []") (simp_all add: analyze_try_def py_or_def Let_def split: sum.splits)

lemma analyze_valid:
  assumes "map_of d (ustr ''csv'') = Some (JStr raw)" and "strip raw \<noteq> []"
  shows "analyze env (Some (JObj d)) =
           respond env
             (if req_dryrun d \<or> OPENAI_API_KEY env = []
              then (dry_run_mode env (req_run_label env d) (strip raw), [])
              else live_mode env (req_schema d) (req_run_label env d) (strip raw))"
  using assms by (simp add: analyze_def analyze_try_obj req_csv_text_str)




lemma respond_Inr: "respond env (Inr r, calls) = (r, calls)"
  by (simp add: respond_def)

lemma respond_Inl: "respond env (Inl e, calls) = (error_response env e, calls)"
  by (simp add: respond_def)

lemma status_error_response: "status (error_response env e) = 500"
  by (simp add: error_response_def)

lemma analyze_live_text:
  assumes "map_of d (ustr ''csv'') = Some (JStr raw)" and "strip raw \<noteq> []"
    and "\<not> req_dryrun d" and "OPENAI_API_KEY env \<noteq> []"
    and "call_model env (req_schema d) (req_run_label env d) (strip raw) = (Inr text, calls)"
  shows "analyze env (Some (JObj d)) =
           respond env
             (case parse_response env text of
                Inl e \<Rightarrow> (Inl e, calls)
              | Inr parsed \<Rightarrow> (post_process (req_run_label env d) parsed, calls))"
  using assms by (simp add: analyze_valid live_mode_def)

lemma post_process_object:
  "post_process run_label (JObj p) =
     Inr \<lparr>status = 200,
          body = JObj (let d1 = setdefault p (ustr ''run_label'') run_label
                       in case dict_get d1 (ustr ''items'') JNull of
                            JArr _ \<Rightarrow> d1
                          | _ \<Rightarrow> AList.update (ustr ''items'') (JArr []) d1)\<rparr>"
  by (simp add: post_process_def Let_def)

lemma map_of_setdefault:
  "map_of (setdefault p k v) k' =
     (if k' = k then (case map_of p k of None \<Rightarrow> Some v | Some w \<Rightarrow> Some w) else map_of p k')"
  by (simp add: setdefault_def update_conv' split: option.splits)

lemma post_process_non_object:
  assumes "\<forall>p. parsed \<noteq> JObj p"
  shows "post_process run_label parsed = Inl (attribute_error parsed (ustr ''setdefault''))"
  using assms by (cases parsed) (simp_all add: post_process_def)

lemma post_process_fields:
  "\<exists>b. post_process run_label (JObj p) = Inr \<lparr>status = 200, body = JObj b\<rparr>
       \<and> map_of b (ustr ''items'') =
           Some (JArr (case map_of p (ustr ''items'') of Some (JArr ys) \<Rightarrow> ys | _ \<Rightarrow> []))
       \<and> map_of b (ustr ''run_label'') =
           Some (case map_of p (ustr ''run_label'') of Some w \<Rightarrow> w | None \<Rightarrow> run_label)"
proof -
  let ?d1 = "setdefault p (ustr ''run_label'') run_label"
  have m: "map_of ?d1 (ustr ''items'') = map_of p (ustr ''items'')"
    using keys_distinct(4) by (simp add: map_of_setdefault)
  have r: "map_of ?d1 (ustr ''run_label'')
             = Some (case map_of p (ustr ''run_label'') of Some w \<Rightarrow> w | None \<Rightarrow> run_label)"
    by (simp add: map_of_setdefault split: option.splits)
  show ?thesis
  proof (cases "\<exists>ys. map_of p (ustr ''items'') = Some (JArr ys)")
    case True
    then obtain ys where ys: "map_of p (ustr ''items'') = Some (JArr ys)" by blast
    have "post_process run_label (JObj p) = Inr \<lparr>status = 200, body = JObj ?d1\<rparr>"
      by (simp add: post_process_object Let_def dict_get_def m ys)
    then show ?thesis using m r ys by simp
  next
    case False
    let ?d2 = "AList.update (ustr ''items'') (JArr []) ?d1"
    from False have c: "(case map_of p (ustr ''items'') of Some (JArr ys) \<Rightarrow> ys | _ \<Rightarrow> []) = []"
      by (auto split: option.splits json.splits)
    from False have "post_process run_label (JObj p) = Inr \<lparr>status = 200, body = JObj ?d2\<rparr>"
      by (auto simp: post_process_object Let_def dict_get_def m split: option.splits json.splits)
    moreover have "map_of ?d2 (ustr ''items'') = Some (JArr [])"
      by (simp add: update_conv')
    moreover have "map_of ?d2 (ustr ''run_label'')
             = Some (case map_of p (ustr ''run_label'') of Some w \<Rightarrow> w | None \<Rightarrow> run_label)"
      using keys_distinct(4) r by (simp add: update_conv')
    ultimately show ?thesis using c by simp
  qed
qed

subsection \<open>Validation\<close>







subsection \<open>Mode selection\<close>

lemma call_model_answer:
  assumes "join_schema schema = Inr sl"
    and "generate env (provider_call env (build_prompt env sl run_label csv_text)) = Inr resp"
  shows "call_model env schema run_label csv_text =
           (Inr (extract_text resp), [provider_call env (build_prompt env sl run_label csv_text)])"
  using assms by (simp add: call_model_def Let_def)

lemma join_default_schema:
  "join_schema default_schema =
     Inr (ustr ''userid, username, quizname, difficultysum, standarderror, measure, timetaken'')"
  by (simp add: join_schema_def default_schema_def ustr_def)

lemma live_env_call_model:
  assumes "join_schema schema = Inr sl"
  shows "call_model (live_env text tbl) schema run_label csv_text =
           (Inr text, [provider_call (live_env text tbl)
                         (build_prompt (live_env text tbl) sl run_label csv_text)])"
  using assms by (simp add: call_model_def Let_def live_env_def sample_env_def extract_text_def)

lemma live_env_key: "OPENAI_API_KEY (live_env text tbl) \<noteq> []"
  by (simp add: live_env_def sample_env_def ustr_def)



subsection \<open>The schema field in dry-run mode\<close>

lemma req_agree:
  assumes "\<forall>k. k \<noteq> ustr ''schema'' \<longrightarrow> map_of d1 k = map_of d2 k"
  shows "req_csv_text d1 = req_csv_text d2" "req_dryrun d1 = req_dryrun d2"
        "req_run_label env d1 = req_run_label env d2"
  using assms keys_distinct
  by (simp_all add: req_csv_text_def req_dryrun_def req_run_label_def dict_get_def)

text \<open>
  C9. Two requests whose objects agree on every key but \<open>schema\<close> get the same
  response, and make the same (that is, no) provider calls, whenever the dry-run
  condition holds: the \<open>schema\<close> value is read but never used on that path.
\<close>

theorem dry_run_ignores_schema:
  assumes "\<forall>k. k \<noteq> ustr ''schema'' \<longrightarrow> map_of d1 k = map_of d2 k"
    and "req_dryrun d1 \<or> OPENAI_API_KEY env = []"
  shows "analyze env (Some (JObj d1)) = analyze env (Some (JObj d2))"
proof -
  have "analyze_try env (Some (JObj d1)) = analyze_try env (Some (JObj d2))"
    using assms(2) req_agree [OF assms(1)]
    by (simp add: analyze_try_obj split: sum.splits)
  then show ?thesis by (simp add: analyze_def)
qed

theorem dry_run_ignores_schema_witness:
  "analyze offline_env
     (Some (JObj [(ustr ''schema'', JArr [JInt 1]), (ustr ''csv'', JStr (ustr ''userid'' @ [10] @ ustr ''7''))]))
   = analyze offline_env
     (Some (JObj [(ustr ''csv'', JStr (ustr ''userid'' @ [10] @ ustr ''7'')), (ustr ''schema'', JStr (ustr ''a,b''))]))"
proof (rule dry_run_ignores_schema)
  show "\<forall>k. k \<noteq> ustr ''schema'' \<longrightarrow>
          map_of [(ustr ''schema'', JArr [JInt 1]), (ustr ''csv'', JStr (ustr ''userid'' @ [10] @ ustr ''7''))] k
          = map_of [(ustr ''csv'', JStr (ustr ''userid'' @ [10] @ ustr ''7'')), (ustr ''schema'', JStr (ustr ''a,b''))] k"
    by simp
  show "req_dryrun [(ustr ''schema'', JArr [JInt 1]), (ustr ''csv'', JStr (ustr ''userid'' @ [10] @ ustr ''7''))]
        \<or> OPENAI_API_KEY offline_env = []"
    by (simp add: offline_env_def sample_env_def)
qed

subsection \<open>Live mode: parsing the model's text\<close>






lemma parse_response_direct: "loads env text = Inr v \<Longrightarrow> parse_response env text = Inr v"
  by (simp add: parse_response_def)




text \<open>Facts about the sample request in the sample environments.\<close>

lemma sample_date: "strftime_ymd (today (live_env text tbl)) = ustr ''2025-10-24''"
  by (simp add: live_env_def sample_env_def strftime_ymd_def zero_pad_def decimal.simps ustr_def)

lemma sample_request_live:
  "map_of sample_request (ustr ''csv'') = Some (JStr (ustr ''userid'' @ [10] @ ustr ''7''))"
  "strip (ustr ''userid'' @ [10] @ ustr ''7'') \<noteq> []"
  "\<not> req_dryrun sample_request"
  "req_run_label (live_env text tbl) sample_request = JStr (ustr ''manual_2025-10-24'')"
  "\<exists>c. call_model (live_env text tbl) (req_schema sample_request)
         (req_run_label (live_env text tbl) sample_request)
         (strip (ustr ''userid'' @ [10] @ ustr ''7'')) = (Inr text, [c])"
proof -
  show "map_of sample_request (ustr ''csv'') = Some (JStr (ustr ''userid'' @ [10] @ ustr ''7''))"
    by (simp add: sample_request_def)
  show "strip (ustr ''userid'' @ [10] @ ustr ''7'') \<noteq> []"
    by (simp add: strip_def ustr_def isspace_def)
  show "\<not> req_dryrun sample_request"
    by (simp add: sample_request_def req_dryrun_def dict_get_def ustr_def)
  show "req_run_label (live_env text tbl) sample_request = JStr (ustr ''manual_2025-10-24'')"
    by (simp add: req_run_label_def sample_request_def dict_get_def py_or_def sample_date)
       (simp add: ustr_def)
  have "join_schema (req_schema sample_request) =
     Inr (ustr ''userid, username, quizname, difficultysum, standarderror, measure, timetaken'')"
    by (simp add: req_schema_def sample_request_def dict_get_def py_or_def join_default_schema)
       (simp add: ustr_def)
  then show "\<exists>c. call_model (live_env text tbl) (req_schema sample_request)
         (req_run_label (live_env text tbl) sample_request)
         (strip (ustr ''userid'' @ [10] @ ustr ''7'')) = (Inr text, [c])"
    by (simp add: live_env_call_model)
qed

lemma live_env_debug: "DEBUG_ERRORS (live_env text tbl) = False"
  by (simp add: live_env_def sample_env_def)

lemma live_env_loads: "loads (live_env text tbl) = table_loads tbl"
  by (simp add: live_env_def sample_env_def)



subsection \<open>Live mode: post-processing\<close>

text \<open>
  C5. In live mode, when the model's text parses to a JSON object, the response is 200
  and its body has an \<open>items\<close> entry that is a list: the parsed object's own \<open>items\<close>
  when that is a list, the empty list when it is missing or anything else.
\<close>

theorem items_always_sequence:
  assumes "map_of d (ustr ''csv'') = Some (JStr raw)" and "strip raw \<noteq> []"
    and "\<not> req_dryrun d" and "OPENAI_API_KEY env \<noteq> []"
    and "call_model env (req_schema d) (req_run_label env d) (strip raw) = (Inr text, calls)"
    and "parse_response env text = Inr (JObj p)"
  shows "\<exists>b. analyze env (Some (JObj d)) = (\<lparr>status = 200, body = JObj b\<rparr>, calls)
           \<and> map_of b (ustr ''items'') =
               Some (JArr (case map_of p (ustr ''items'') of Some (JArr ys) \<Rightarrow> ys | _ \<Rightarrow> []))"
proof -
  obtain b where b: "post_process (req_run_label env d) (JObj p) = Inr \<lparr>status = 200, body = JObj b\<rparr>"
    and i: "map_of b (ustr ''items'') =
               Some (JArr (case map_of p (ustr ''items'') of Some (JArr ys) \<Rightarrow> ys | _ \<Rightarrow> []))"
    using post_process_fields [of "req_run_label env d" p] by blast
  have "analyze env (Some (JObj d)) = (\<lparr>status = 200, body = JObj b\<rparr>, calls)"
    using analyze_live_text [OF assms(1-5)] assms(6) b by (simp add: respond_Inr)
  then show ?thesis using i by blast
qed

theorem items_always_sequence_witness:
  "\<exists>b. fst (analyze (live_env (ustr ''{}'') [(ustr ''{}'', JObj [])]) (Some (JObj sample_request)))
          = \<lparr>status = 200, body = JObj b\<rparr>
       \<and> map_of b (ustr ''items'') = Some (JArr [])"
proof -
  let ?env = "live_env (ustr ''{}'') [(ustr ''{}'', JObj [])]"
  obtain c where c: "call_model ?env (req_schema sample_request) (req_run_label ?env sample_request)
         (strip (ustr ''userid'' @ [10] @ ustr ''7'')) = (Inr (ustr ''{}''), [c])"
    using sample_request_live(5) by blast
  have p: "parse_response ?env (ustr ''{}'') = Inr (JObj [])"
    by (simp add: parse_response_def live_env_loads table_loads_def)
  from items_always_sequence [OF sample_request_live(1-3) live_env_key c p]
  show ?thesis by auto
qed

text \<open>
  C10. In live mode, when the model's text is valid JSON whose top level is not an
  object, \<open>setdefault\<close> raises \<open>AttributeError\<close> and the response is the 500 error
  envelope for it; no result with empty \<open>items\<close> is made up.
\<close>

theorem non_object_is_error:
  assumes "map_of d (ustr ''csv'') = Some (JStr raw)" and "strip raw \<noteq> []"
    and "\<not> req_dryrun d" and "OPENAI_API_KEY env \<noteq> []"
    and "call_model env (req_schema d) (req_run_label env d) (strip raw) = (Inr text, calls)"
    and "loads env text = Inr parsed" and "\<forall>p. parsed \<noteq> JObj p"
  shows "analyze env (Some (JObj d))
           = (error_response env (attribute_error parsed (ustr ''setdefault'')), calls)
         \<and> status (fst (analyze env (Some (JObj d)))) = 500"
proof -
  have "analyze env (Some (JObj d))
           = (error_response env (attribute_error parsed (ustr ''setdefault'')), calls)"
    using analyze_live_text [OF assms(1-5)] parse_response_direct [OF assms(6)]
      post_process_non_object [OF assms(7)]
    by (simp add: respond_Inl)
  then show ?thesis by (simp add: status_error_response)
qed

theorem non_object_is_error_witness:
  "fst (analyze (live_env (ustr ''[1, 2]'') [(ustr ''[1, 2]'', JArr [JInt 1, JInt 2])])
        (Some (JObj sample_request)))
   = \<lparr>status = 500,
      body = JObj [(ustr ''error'',
                    JStr (ustr ''AttributeError: '' @ [39] @ ustr ''list'' @ [39]
                          @ ustr '' object has no attribute '' @ [39] @ ustr ''setdefault'' @ [39]))]\<rparr>"
proof -
  let ?env = "live_env (ustr ''[1, 2]'') [(ustr ''[1, 2]'', JArr [JInt 1, JInt 2])]"
  obtain c where c: "call_model ?env (req_schema sample_request) (req_run_label ?env sample_request)
         (strip (ustr ''userid'' @ [10] @ ustr ''7'')) = (Inr (ustr ''[1, 2]''), [c])"
    using sample_request_live(5) by blast
  have l: "loads ?env (ustr ''[1, 2]'') = Inr (JArr [JInt 1, JInt 2])"
    by (simp add: live_env_loads table_loads_def)
  have n: "\<forall>p. JArr [JInt 1, JInt 2] \<noteq> JObj p" by simp
  from non_object_is_error [OF sample_request_live(1-3) live_env_key c l n]
  have "fst (analyze ?env (Some (JObj sample_request)))
          = error_response ?env (attribute_error (JArr [JInt 1, JInt 2]) (ustr ''setdefault''))"
    by simp
  then show ?thesis
    by (simp add: error_response_def attribute_error_def live_env_debug ustr_def)
qed

subsection \<open>Dry-run mode\<close>

lemma linebreak_isspace: "is_linebreak c \<Longrightarrow> isspace c"
  by (auto simp: is_linebreak_def isspace_def)

lemma concat_splitlines_from:
  "concat (splitlines_from cur s) = cur @ filter (\<lambda>c. \<not> is_linebreak c) s"
proof (induction cur s rule: splitlines_from.induct)
  case (3 cur c d cs)
  have "is_linebreak 13" "is_linebreak 10" by (simp_all add: is_linebreak_def)
  with 3 show ?case by auto
qed auto

lemma strip_has_nonspace:
  assumes "strip s \<noteq> []"
  shows "\<exists>c\<in>set s. \<not> isspace c"
  using assms strip_Nil_iff by blast

lemma strip_strip_nonempty:
  assumes "strip s \<noteq> []"
  shows "strip (strip s) \<noteq> []"
proof -
  let ?u = "dropWhile isspace (rev (dropWhile isspace s))"
  from assms have ne: "?u \<noteq> []" by (simp add: strip_def)
  then have "\<not> isspace (hd ?u)" by (rule hd_dropWhile)
  moreover from ne have "hd ?u \<in> set (strip s)" by (simp add: strip_def)
  ultimately show ?thesis using strip_Nil_iff by blast
qed

lemma nonblank_lines_nonempty_iff: "nonblank_lines t \<noteq> [] \<longleftrightarrow> strip t \<noteq> []"
proof
  assume "nonblank_lines t \<noteq> []"
  then obtain l where l: "l \<in> set (splitlines t)" "strip l \<noteq> []"
    by (auto simp: nonblank_lines_def filter_empty_conv)
  then obtain c where c: "c \<in> set l" "\<not> isspace c" using strip_has_nonspace by blast
  with l(1) have "c \<in> set (concat (splitlines t))" by auto
  then have "c \<in> set t" by (simp add: splitlines_def concat_splitlines_from)
  with c(2) show "strip t \<noteq> []" using strip_Nil_iff by blast
next
  assume "strip t \<noteq> []"
  then obtain c where c: "c \<in> set t" "\<not> isspace c" using strip_has_nonspace by blast
  then have "\<not> is_linebreak c" using linebreak_isspace by blast
  with c(1) have "c \<in> set (concat (splitlines t))"
    by (simp add: splitlines_def concat_splitlines_from)
  then obtain l where l: "l \<in> set (splitlines t)" "c \<in> set l" by auto
  with c(2) have "strip l \<noteq> []" using strip_Nil_iff by blast
  with l(1) show "nonblank_lines t \<noteq> []"
    by (auto simp: nonblank_lines_def filter_empty_conv)
qed

lemma py_int_zero: "py_int td maxd (ustr ''0'') = Inr 0"
  by (simp add: py_int_def ustr_def c_isspace_def is_digit_def Let_def)

lemma userid_of_cases:
  "userid_of env rec =
     (case map_of rec (ustr ''userid'') of
        None \<Rightarrow> Inr 0
      | Some s \<Rightarrow> if s = [] then Inr 0 else int_of_str env s)"
proof -
  have "ustr ''0'' \<noteq> []" by (simp add: ustr_def)
  then show ?thesis
    by (simp add: userid_of_def Let_def int_of_str_def py_int_zero split: option.splits)
qed

lemma int_of_str_Inr:
  "int_of_str env s = Inr n \<longleftrightarrow> py_int (todecimal env) (int_max_str_digits env) s = Inr n"
  by (simp add: int_of_str_def split: sum.splits int_error.splits)

lemma int_of_str_Inl:
  "int_of_str env s = Inl e \<Longrightarrow> \<exists>msg. e = value_error msg"
  by (auto simp: int_of_str_def split: sum.splits int_error.splits)

lemma dry_item_cases:
  "dry_item env hdr row =
     (case userid_of env (dict_zip hdr (split_str row 44)) of
        Inl e \<Rightarrow> Inl e
      | Inr uid \<Rightarrow> Inr (placeholder_item uid (dict_zip hdr (split_str row 44))))"
  by (simp add: dry_item_def Let_def)



lemma dry_items_Inr_D:
  "dry_items env hdr rows = Inr items \<Longrightarrow>
     list_all2 (\<lambda>row item. dry_item env hdr row = Inr item) rows items"
proof (induction rows arbitrary: items)
  case Nil
  then show ?case by simp
next
  case (Cons row rows)
  from Cons.prems obtain it its where
    "dry_item env hdr row = Inr it" "dry_items env hdr rows = Inr its" "items = it # its"
    by (auto split: sum.splits)
  with Cons.IH show ?case by simp
qed

lemma dry_items_Inl:
  "dry_items env hdr rows = Inl e \<Longrightarrow> \<exists>row\<in>set rows. dry_item env hdr row = Inl e"
proof (induction rows)
  case Nil
  then show ?case by simp
next
  case (Cons row rows)
  show ?case
  proof (cases "dry_item env hdr row")
    case (Inl x)
    with Cons.prems show ?thesis by simp
  next
    case (Inr it)
    with Cons.prems have "dry_items env hdr rows = Inl e"
      by (cases "dry_items env hdr rows") simp_all
    with Cons.IH show ?thesis by simp
  qed
qed

lemma dry_items_Inr_all:
  assumes "dry_items env hdr rows = Inr items" and "row \<in> set rows"
  shows "\<exists>item. dry_item env hdr row = Inr item"
proof -
  from assms(1) have a: "list_all2 (\<lambda>row item. dry_item env hdr row = Inr item) rows items"
    by (rule dry_items_Inr_D)
  from assms(2) obtain i where i: "i < length rows" "rows ! i = row"
    by (auto simp: in_set_conv_nth)
  from list_all2_nthD [OF a i(1)] i(2) show ?thesis by blast
qed


lemma dry_run_mode_lines:
  assumes "nonblank_lines t \<noteq> []"
  shows "dry_run_mode env rl t =
     (case dry_items env (split_str (hd (nonblank_lines t)) 44) (drop 1 (nonblank_lines t)) of
        Inl e \<Rightarrow> Inl e
      | Inr items \<Rightarrow>
          Inr \<lparr>status = 200, body = JObj [(ustr ''run_label'', rl), (ustr ''items'', JArr items)]\<rparr>)"
proof -
  from assms obtain l ls where "nonblank_lines t = l # ls" by (cases "nonblank_lines t") auto
  then show ?thesis by (simp add: dry_run_mode_def Let_def)
qed

lemma analyze_dry_lines:
  assumes "map_of d (ustr ''csv'') = Some (JStr raw)" and "strip raw \<noteq> []"
  shows "nonblank_lines (strip raw) \<noteq> []"
  using assms(2) strip_strip_nonempty nonblank_lines_nonempty_iff by blast

lemma analyze_dry_Inr:
  assumes "map_of d (ustr ''csv'') = Some (JStr raw)" and "strip raw \<noteq> []"
    and "req_dryrun d \<or> OPENAI_API_KEY env = []"
    and "dry_items env (split_str (hd (nonblank_lines (strip raw))) 44)
           (drop 1 (nonblank_lines (strip raw))) = Inr items"
  shows "analyze env (Some (JObj d)) =
          (\<lparr>status = 200,
            body = JObj [(ustr ''run_label'', req_run_label env d), (ustr ''items'', JArr items)]\<rparr>, [])"
proof -
  have "dry_run_mode env (req_run_label env d) (strip raw) =
          Inr \<lparr>status = 200,
            body = JObj [(ustr ''run_label'', req_run_label env d), (ustr ''items'', JArr items)]\<rparr>"
    using dry_run_mode_lines [OF analyze_dry_lines [OF assms(1,2)]] assms(4) by simp
  then show ?thesis
    using analyze_valid [OF assms(1,2), of env] assms(3) by (simp add: respond_Inr)
qed

lemma analyze_dry_Inl:
  assumes "map_of d (ustr ''csv'') = Some (JStr raw)" and "strip raw \<noteq> []"
    and "req_dryrun d \<or> OPENAI_API_KEY env = []"
    and "dry_items env (split_str (hd (nonblank_lines (strip raw))) 44)
           (drop 1 (nonblank_lines (strip raw))) = Inl e"
  shows "analyze env (Some (JObj d)) = (error_response env e, [])"
proof -
  have "dry_run_mode env (req_run_label env d) (strip raw) = Inl e"
    using dry_run_mode_lines [OF analyze_dry_lines [OF assms(1,2)]] assms(4) by simp
  then show ?thesis
    using analyze_valid [OF assms(1,2), of env] assms(3) by (simp add: respond_Inl)
qed


lemma userid_of_ok:
  assumes "case userid_field hdr row of
             None \<Rightarrow> True
           | Some s \<Rightarrow> s = [] \<or> (\<exists>n. py_int (todecimal env) (int_max_str_digits env) s = Inr n)"
  shows "\<exists>uid. userid_of env (dict_zip hdr (split_str row 44)) = Inr uid"
proof (cases "map_of (dict_zip hdr (split_str row 44)) (ustr ''userid'')")
  case None
  then show ?thesis by (simp add: userid_of_cases)
next
  case (Some s)
  show ?thesis
  proof (cases "s = []")
    case True
    with Some show ?thesis by (simp add: userid_of_cases)
  next
    case False
    from assms Some False obtain n where
      "py_int (todecimal env) (int_max_str_digits env) s = Inr n"
      by (auto simp: userid_field_def)
    then have "int_of_str env s = Inr n" by (simp add: int_of_str_Inr)
    with Some False show ?thesis by (simp add: userid_of_cases)
  qed
qed

lemma userid_of_Inr:
  assumes "userid_of env (dict_zip hdr (split_str row 44)) = Inr uid"
  shows "case userid_field hdr row of
           None \<Rightarrow> uid = 0
         | Some s \<Rightarrow> if s = [] then uid = 0
                     else py_int (todecimal env) (int_max_str_digits env) s = Inr uid"
proof (cases "map_of (dict_zip hdr (split_str row 44)) (ustr ''userid'')")
  case None
  with assms show ?thesis by (simp add: userid_of_cases userid_field_def)
next
  case (Some s)
  show ?thesis
  proof (cases "s = []")
    case True
    with Some assms show ?thesis by (simp add: userid_of_cases userid_field_def)
  next
    case False
    with Some assms have "int_of_str env s = Inr uid" by (simp add: userid_of_cases)
    then have "py_int (todecimal env) (int_max_str_digits env) s = Inr uid"
      by (simp add: int_of_str_Inr)
    with Some False show ?thesis by (simp add: userid_field_def)
  qed
qed

lemma dry_item_fails:
  assumes "userid_field hdr row = Some s" and "s \<noteq> []"
    and "py_int (todecimal env) (int_max_str_digits env) s = Inl err"
  shows "\<exists>msg. dry_item env hdr row = Inl (value_error msg)"
proof -
  obtain e where e: "int_of_str env s = Inl e"
    using assms(3) by (cases "int_of_str env s") (simp_all add: int_of_str_Inr)
  then obtain msg where "e = value_error msg" using int_of_str_Inl by blast
  with e have "userid_of env (dict_zip hdr (split_str row 44)) = Inl (value_error msg)"
    using assms(1,2) by (simp add: userid_of_cases userid_field_def)
  then have "dry_item env hdr row = Inl (value_error msg)" by (simp add: dry_item_cases)
  then show ?thesis by (rule exI)
qed

lemma dry_item_Inl_value_error:
  assumes "dry_item env hdr row = Inl e"
  shows "\<exists>msg. e = value_error msg"
proof -
  let ?rec = "dict_zip hdr (split_str row 44)"
  from assms have u: "userid_of env ?rec = Inl e"
    by (cases "userid_of env ?rec") (simp_all add: dry_item_cases)
  show ?thesis
  proof (cases "map_of ?rec (ustr ''userid'')")
    case None
    with u show ?thesis by (simp add: userid_of_cases)
  next
    case (Some s)
    with u have "int_of_str env s = Inl e"
      by (cases "s = []") (simp_all add: userid_of_cases)
    then show ?thesis by (rule int_of_str_Inl)
  qed
qed

lemma dry_item_Inr:
  assumes "dry_item env hdr row = Inr item"
  shows "\<exists>uid. userid_of env (dict_zip hdr (split_str row 44)) = Inr uid
              \<and> item = placeholder_item uid (dict_zip hdr (split_str row 44))"
proof (cases "userid_of env (dict_zip hdr (split_str row 44))")
  case (Inl e)
  with assms show ?thesis by (simp add: dry_item_cases)
next
  case (Inr uid)
  with assms have "item = placeholder_item uid (dict_zip hdr (split_str row 44))"
    by (simp add: dry_item_cases)
  with Inr show ?thesis by blast
qed

lemma placeholder_item_fields:
  "placeholder_item uid rec =
     JObj [(ustr ''userid'', JInt uid),
           (ustr ''risk_score'', JFloat (Finite 50)),
           (ustr ''confidence'', JFloat (Finite (4 / 10))),
           (ustr ''drivers'', JArr [JStr (ustr ''dry-run mode'')]),
           (ustr ''student_msg'', JStr (ustr ''Dry-run preview.'')),
           (ustr ''teacher_msg'',
              JStr (ustr ''Dry-run: Verify Moodle '' @ [0x2194] @ ustr '' Analytics link.'')),
           (ustr ''features'', JObj (map (\<lambda>(k, v). (k, JStr v)) rec))]"
  by (simp add: placeholder_item_def features_of_def)

end
